theory Spec2Isabelle
  imports Complex_Main "HOL-Library.AList"
begin

section \<open>The MCP bridge of src/bot/discord-bot.js\<close>

text \<open>
  The class \<open>MCPBridge\<close> keeps two JavaScript \<open>Map\<close>s (\<open>servers\<close> and
  \<open>connections\<close>), a \<open>stats\<close> object and a flag. A \<open>Map\<close> iterates in insertion
  order and \<open>set\<close> on a key that is present replaces the value in place, which is what
  \<open>AList.update\<close> does on an association list; \<open>get\<close> is \<open>map_of\<close>.

  Every method mutates \<open>this\<close>; the model passes the bridge state explicitly. What it
  does to the outside world is recorded in the state as well: \<open>emitted\<close> lists
  the events handed to \<open>this.emit\<close>, \<open>wire\<close> the operations on WebSocket objects
  (the transport library is not part of the repository) and \<open>timers\<close> the intervals
  registered with \<open>setInterval\<close>. Console output is left out.

  Keys, method names and parameter values are strings; the counters are JavaScript numbers
  and are modelled as unbounded integers. \<open>new Date()\<close> is a parameter of the operation
  that reads the clock.
\<close>

subsection \<open>Data\<close>

type_synonym time = nat

record tool =
  tool_name :: string
  tool_description :: string

record server =
  srv_name :: string
  srv_url :: string
  srv_status :: string
  srv_capabilities :: "string list"
  srv_tools :: "tool list"

record connection =
  conn_id :: string
  conn_server :: server
  conn_ws :: "string option"
  conn_status :: string
  lastPing :: time
  messageCount :: int

record stats =
  totalConnections :: int
  activeConnections :: int
  messagesProcessed :: int
  lastActivity :: time

text \<open>
  An outbound message \<open>{ method, params }\<close>; its field \<open>method\<close> is called
  \<open>msg_method\<close> here. \<open>params\<close> may be missing or \<open>null\<close> (\<open>None\<close>);
  otherwise it is an object whose properties are modelled with string values.
\<close>

record message =
  msg_method :: string
  params :: "(string \<times> string) list option"

datatype json =
  JNull | JBool bool | JNum real | JStr string | JArr "json list" | JObj "(string \<times> json) list"

datatype event =
  ServerConnected string server
| ServerDisconnected string server
| MessageEvent string json

datatype wire_op =
  WsOpen string string
| WsSend string message
| WsClose string

datatype task = PingServers | UpdateStats

record bridge =
  connections :: "(string \<times> connection) list"
  servers :: "(string \<times> server) list"
  isInitialized :: bool
  stats :: stats
  emitted :: "event list"
  wire :: "wire_op list"
  timers :: "(task \<times> nat) list"

text \<open>Every \<open>throw new Error(msg)\<close> of the class is the value \<open>Error msg\<close>.\<close>

datatype error = Error string

text \<open>
  The source throws plain \<open>Error\<close> objects that differ in their message only. The two
  failures of \<open>sendMessage\<close> are named here as the specification names them.
\<close>

definition UnknownEndpointError :: "string \<Rightarrow> error" where
  "UnknownEndpointError serverId = Error (''No connection to server: '' @ serverId)"

definition NotConnectedError :: "string \<Rightarrow> error" where
  "NotConnectedError serverId = Error (''Server '' @ serverId @ '' is not connected'')"

subsection \<open>Construction\<close>

text \<open>The three object literals that \<open>setupDefaultServers\<close> registers.\<close>

definition demo_server :: server where
  "demo_server =
     \<lparr>srv_name = ''Demo Server'', srv_url = ''ws://localhost:3001/mcp'',
      srv_status = ''simulated'',
      srv_capabilities = [''tools'', ''resources'', ''prompts''],
      srv_tools =
        [\<lparr>tool_name = ''calculate'', tool_description = ''Perform calculations''\<rparr>,
         \<lparr>tool_name = ''weather'', tool_description = ''Get weather information''\<rparr>,
         \<lparr>tool_name = ''translate'', tool_description = ''Translate text''\<rparr>]\<rparr>"

definition ai_assistant :: server where
  "ai_assistant =
     \<lparr>srv_name = ''AI Assistant'', srv_url = ''ws://localhost:3002/mcp'',
      srv_status = ''simulated'',
      srv_capabilities = [''prompts'', ''completion''],
      srv_tools =
        [\<lparr>tool_name = ''chat'', tool_description = ''AI chat interface''\<rparr>,
         \<lparr>tool_name = ''analyze'', tool_description = ''Text analysis''\<rparr>]\<rparr>"

definition file_manager :: server where
  "file_manager =
     \<lparr>srv_name = ''File Manager'', srv_url = ''ws://localhost:3003/mcp'',
      srv_status = ''simulated'',
      srv_capabilities = [''resources'', ''file-operations''],
      srv_tools =
        [\<lparr>tool_name = ''read-file'', tool_description = ''Read file contents''\<rparr>,
         \<lparr>tool_name = ''write-file'', tool_description = ''Write file contents''\<rparr>,
         \<lparr>tool_name = ''list-files'', tool_description = ''List directory contents''\<rparr>]\<rparr>"

definition setupDefaultServers :: "bridge \<Rightarrow> bridge" where
  "setupDefaultServers s =
     s\<lparr>servers :=
         AList.update ''file-manager'' file_manager
           (AList.update ''ai-assistant'' ai_assistant
              (AList.update ''demo-server'' demo_server (servers s)))\<rparr>"

text \<open>The constructor; \<open>now\<close> is the clock reading of \<open>lastActivity: new Date()\<close>.\<close>

definition MCPBridge :: "time \<Rightarrow> bridge" where
  "MCPBridge now =
     setupDefaultServers
       \<lparr>connections = [], servers = [], isInitialized = False,
        stats = \<lparr>totalConnections = 0, activeConnections = 0, messagesProcessed = 0,
                 lastActivity = now\<rparr>,
        emitted = [], wire = [], timers = []\<rparr>"

subsection \<open>Simulated responses\<close>

record content =
  content_type :: string
  content_text :: string

record resource =
  uri :: string
  resource_name :: string
  mimeType :: string

datatype result =
  Tools "tool list"
| Content "content list"
| Resources "resource list"
| Placeholder string string

text \<open>
  \<open>responses\<close> is an object literal, so \<open>responses[key]\<close> is a property read: it finds
  the literal's own property when there is one and otherwise follows the prototype chain to
  \<open>Object.prototype\<close>. A read that ends there yields that member of \<open>Object.prototype\<close>
  (a function, or for \<open>__proto__\<close> the prototype object itself), which is truthy, so the
  \<open>||\<close> of \<open>simulateResponse\<close> returns it. \<open>ObjectPrototypeMember key\<close> stands for
  that value.
\<close>

datatype response = Result result | ObjectPrototypeMember string

text \<open>
  The property names of \<open>Object.prototype\<close> (ECMAScript, with the legacy accessors that
  Node.js provides). They belong to the language, not to the repository.
\<close>

definition object_prototype_keys :: "string list" where
  "object_prototype_keys =
     [''constructor'', ''__defineGetter__'', ''__defineSetter__'', ''hasOwnProperty'',
      ''__lookupGetter__'', ''__lookupSetter__'', ''isPrototypeOf'',
      ''propertyIsEnumerable'', ''toString'', ''valueOf'', ''__proto__'', ''toLocaleString'']"

definition property_read :: "(string \<times> response) list \<Rightarrow> string \<Rightarrow> response option" where
  "property_read obj key =
     (case map_of obj key of
        Some v \<Rightarrow> Some v
      | None \<Rightarrow> if key \<in> set object_prototype_keys then Some (ObjectPrototypeMember key) else None)"

text \<open>
  \<open>message.params?.name || 'unknown'\<close>: a missing \<open>params\<close>, a missing \<open>name\<close> and
  the empty string all give \<open>'unknown'\<close>.
\<close>

definition tool_call_name :: "message \<Rightarrow> string" where
  "tool_call_name message =
     (case params message of
        None \<Rightarrow> ''unknown''
      | Some ps \<Rightarrow>
          (case map_of ps ''name'' of
             None \<Rightarrow> ''unknown''
           | Some n \<Rightarrow> if n = [] then ''unknown'' else n))"

definition responses :: "message \<Rightarrow> (string \<times> response) list" where
  "responses message =
     [(''tools/list'',
        Result (Tools
          [\<lparr>tool_name = ''calculate'', tool_description = ''Perform mathematical calculations''\<rparr>,
           \<lparr>tool_name = ''weather'', tool_description = ''Get current weather information''\<rparr>,
           \<lparr>tool_name = ''translate'', tool_description = ''Translate text between languages''\<rparr>])),
      (''tools/call'',
        Result (Content
          [\<lparr>content_type = ''text'',
            content_text = ''Tool executed successfully: '' @ tool_call_name message\<rparr>])),
      (''resources/list'',
        Result (Resources
          [\<lparr>uri = ''file://demo.txt'', resource_name = ''Demo File'', mimeType = ''text/plain''\<rparr>,
           \<lparr>uri = ''http://example.com'', resource_name = ''Example Website'',
            mimeType = ''text/html''\<rparr>]))]"

definition simulateResponse :: "message \<Rightarrow> response" where
  "simulateResponse message =
     (case property_read (responses message) (msg_method message) of
        Some r \<Rightarrow> r
      | None \<Rightarrow> Result (Placeholder ''Demo response'' ''success''))"

subsection \<open>Sending\<close>

text \<open>
  What \<open>sendMessage\<close> resolves to: the simulated response, \<open>{ status: 'sent', timestamp }\<close>
  after a frame was handed to the socket, or \<open>undefined\<close> when the connection is neither
  simulated nor has a socket (the function then ends without a \<open>return\<close>).
\<close>

datatype send_result = Response response | Sent time | Undefined

definition sendMessage ::
  "time \<Rightarrow> string \<Rightarrow> message \<Rightarrow> bridge \<Rightarrow> (error + send_result) \<times> bridge" where
  "sendMessage now serverId message s =
     (case map_of (connections s) serverId of
        None \<Rightarrow> (Inl (UnknownEndpointError serverId), s)
      | Some connection \<Rightarrow>
          if conn_status connection \<noteq> ''connected'' then (Inl (NotConnectedError serverId), s)
          else if srv_status (conn_server connection) = ''simulated''
            then (Inr (Response (simulateResponse message)), s)
          else (case conn_ws connection of
                  Some sock \<Rightarrow> (Inr (Sent now), s\<lparr>wire := wire s @ [WsSend serverId message]\<rparr>)
                | None \<Rightarrow> (Inr Undefined, s)))"

subsection \<open>Connecting\<close>

text \<open>
  \<open>connectToServer\<close>. A simulated server gets its connection record at once. For any
  other server a WebSocket is created and the method returns; the record is stored later,
  by the socket's \<open>open\<close> handler (\<open>ws_on_open\<close>), and its \<open>message\<close>, \<open>close\<close> and
  \<open>error\<close> handlers call \<open>handleMessage\<close> and \<open>handleDisconnect\<close>. Whether the
  WebSocket constructor throws for a URL is a fact of the transport library:
  \<open>ws_throws url\<close> is the message of the exception, if any.
\<close>

definition connectToServer ::
  "(string \<Rightarrow> string option) \<Rightarrow> time \<Rightarrow> string \<Rightarrow> server \<Rightarrow> bridge \<Rightarrow> error + bridge" where
  "connectToServer ws_throws now ident server s =
     (if srv_status server = ''simulated'' then
        Inr (s\<lparr>connections :=
                 AList.update ident
                   \<lparr>conn_id = ident, conn_server = server, conn_ws = None,
                    conn_status = ''connected'', lastPing = now, messageCount = 0\<rparr>
                   (connections s),
               emitted := emitted s @ [ServerConnected ident server]\<rparr>)
      else
        (case ws_throws (srv_url server) of
           Some msg \<Rightarrow> Inl (Error (''Failed to connect to '' @ srv_name server @ '': '' @ msg))
         | None \<Rightarrow> Inr (s\<lparr>wire := wire s @ [WsOpen ident (srv_url server)]\<rparr>)))"

definition ws_on_open :: "time \<Rightarrow> string \<Rightarrow> server \<Rightarrow> bridge \<Rightarrow> bridge" where
  "ws_on_open now ident server s =
     s\<lparr>connections :=
         AList.update ident
           \<lparr>conn_id = ident, conn_server = server, conn_ws = Some (srv_url server),
            conn_status = ''connected'', lastPing = now, messageCount = 0\<rparr>
           (connections s),
       emitted := emitted s @ [ServerConnected ident server]\<rparr>"

definition startPeriodicTasks :: "bridge \<Rightarrow> bridge" where
  "startPeriodicTasks s = s\<lparr>timers := timers s @ [(PingServers, 30000), (UpdateStats, 10000)]\<rparr>"

text \<open>
  The loop of \<open>initialize\<close> over \<open>this.servers\<close>; \<open>clock ident\<close> is the time read while
  the server \<open>ident\<close> is connected. A failed connect is logged and the loop goes on.
\<close>

fun connect_all ::
  "(string \<Rightarrow> string option) \<Rightarrow> (string \<Rightarrow> time) \<Rightarrow> (string \<times> server) list \<Rightarrow> bridge \<Rightarrow> bridge" where
  "connect_all ws_throws clock [] s = s"
| "connect_all ws_throws clock ((ident, server) # rest) s =
     (case connectToServer ws_throws (clock ident) ident server s of
        Inr s' \<Rightarrow>
          connect_all ws_throws clock rest
            (s'\<lparr>stats := (stats s')\<lparr>totalConnections := totalConnections (stats s') + 1,
                                  activeConnections := activeConnections (stats s') + 1\<rparr>\<rparr>)
      | Inl err \<Rightarrow> connect_all ws_throws clock rest s)"

definition initialize :: "(string \<Rightarrow> string option) \<Rightarrow> (string \<Rightarrow> time) \<Rightarrow> bridge \<Rightarrow> bridge" where
  "initialize ws_throws clock s =
     startPeriodicTasks ((connect_all ws_throws clock (servers s) s)\<lparr>isInitialized := True\<rparr>)"

subsection \<open>Inbound frames and disconnects\<close>

text \<open>
  \<open>handleMessage\<close>: \<open>JSON_parse data = None\<close> stands for \<open>JSON.parse\<close> throwing, which is
  caught and logged.
\<close>

definition handleMessage ::
  "(string \<Rightarrow> json option) \<Rightarrow> time \<Rightarrow> string \<Rightarrow> string \<Rightarrow> bridge \<Rightarrow> bridge" where
  "handleMessage JSON_parse now serverId data s =
     (case JSON_parse data of
        None \<Rightarrow> s
      | Some msg \<Rightarrow>
          (let s' =
             (case map_of (connections s) serverId of
                None \<Rightarrow> s
              | Some connection \<Rightarrow>
                  s\<lparr>connections :=
                      AList.update serverId
                        (connection\<lparr>messageCount := messageCount connection + 1, lastPing := now\<rparr>)
                        (connections s),
                    stats := (stats s)\<lparr>messagesProcessed := messagesProcessed (stats s) + 1,
                                       lastActivity := now\<rparr>\<rparr>)
           in s'\<lparr>emitted := emitted s' @ [MessageEvent serverId msg]\<rparr>))"

definition handleDisconnect :: "string \<Rightarrow> bridge \<Rightarrow> bridge" where
  "handleDisconnect serverId s =
     (case map_of (connections s) serverId of
        None \<Rightarrow> s
      | Some connection \<Rightarrow>
          s\<lparr>connections :=
              AList.update serverId (connection\<lparr>conn_status := ''disconnected''\<rparr>) (connections s),
            stats := (stats s)\<lparr>activeConnections := activeConnections (stats s) - 1\<rparr>,
            emitted := emitted s @ [ServerDisconnected serverId (conn_server connection)]\<rparr>)"

subsection \<open>Statistics, projection, shutdown\<close>


record connection_view =
  view_id :: string
  view_name :: string
  view_status :: string
  view_capabilities :: "string list"
  view_messageCount :: int
  view_lastPing :: time

definition getConnections :: "bridge \<Rightarrow> connection_view list" where
  "getConnections s =
     map (\<lambda>conn. \<lparr>view_id = conn_id conn, view_name = srv_name (conn_server conn),
                  view_status = conn_status conn,
                  view_capabilities = srv_capabilities (conn_server conn),
                  view_messageCount = messageCount conn, view_lastPing = lastPing conn\<rparr>)
       (map snd (connections s))"

definition getStats :: "bridge \<Rightarrow> stats" where
  "getStats s = stats s"

text \<open>
  \<open>close\<close> calls \<open>ws.close()\<close> on every connected connection that has a socket and then
  clears the connection map. It touches neither \<open>stats\<close> nor the timers.
\<close>

definition close :: "bridge \<Rightarrow> bridge" where
  "close s =
     s\<lparr>wire := wire s @
         map (\<lambda>conn. WsClose (conn_id conn))
           (filter (\<lambda>conn. conn_ws conn \<noteq> None \<and> conn_status conn = ''connected'')
              (map snd (connections s))),
       connections := []\<rparr>"

text \<open>
  The state the application runs in: \<open>new MCPBridge()\<close> followed by \<open>initialize()\<close>
  (src/web/controller.js), here with the constructor's clock at 0 and every connect's at
  1000.
\<close>

definition demo_bridge :: bridge where
  "demo_bridge = initialize (\<lambda>url. None) (\<lambda>ident. 1000) (MCPBridge 0)"

text \<open>
  The same bridge after one inbound frame \<open>null\<close> from \<open>demo-server\<close> at time 2000.
\<close>

definition received_bridge :: bridge where
  "received_bridge =
     handleMessage (\<lambda>data. if data = ''null'' then Some JNull else None) 2000
       ''demo-server'' ''null'' demo_bridge"

subsection \<open>The stats object against the connection map\<close>

text \<open>
  The two quantities that \<open>stats\<close> is meant to mirror: the number of connections whose
  status is \<open>connected\<close>, and the sum of the connections' message counters.
\<close>

definition connected_count :: "bridge \<Rightarrow> int" where
  "connected_count s =
     int (length (filter (\<lambda>conn. conn_status conn = ''connected'') (map snd (connections s))))"

definition message_total :: "bridge \<Rightarrow> int" where
  "message_total s = sum_list (map messageCount (map snd (connections s)))"

text \<open>
  How far \<open>stats\<close> is from the connection map: \<open>activeConnections\<close> minus the number
  of connected connections, and \<open>messagesProcessed\<close> minus the sum of the message
  counters. Each is 0 exactly when the corresponding equality holds.
\<close>

definition active_drift :: "bridge \<Rightarrow> int" where
  "active_drift s = activeConnections (stats s) - connected_count s"

definition message_drift :: "bridge \<Rightarrow> int" where
  "message_drift s = messagesProcessed (stats s) - message_total s"


section \<open>Properties\<close>

subsection \<open>The running bridge\<close>

lemma srv_status_defaults:
  "srv_status demo_server = ''simulated''"
  "srv_status ai_assistant = ''simulated''"
  "srv_status file_manager = ''simulated''"
  by (simp_all add: demo_server_def ai_assistant_def file_manager_def)

lemma demo_bridge_connections:
  "connections demo_bridge =
     [(''demo-server'', \<lparr>conn_id = ''demo-server'', conn_server = demo_server, conn_ws = None,
         conn_status = ''connected'', lastPing = 1000, messageCount = 0\<rparr>),
      (''ai-assistant'', \<lparr>conn_id = ''ai-assistant'', conn_server = ai_assistant, conn_ws = None,
         conn_status = ''connected'', lastPing = 1000, messageCount = 0\<rparr>),
      (''file-manager'', \<lparr>conn_id = ''file-manager'', conn_server = file_manager, conn_ws = None,
         conn_status = ''connected'', lastPing = 1000, messageCount = 0\<rparr>)]"
  by (simp add: demo_bridge_def initialize_def MCPBridge_def setupDefaultServers_def
      connectToServer_def startPeriodicTasks_def srv_status_defaults)

lemma demo_bridge_stats:
  "stats demo_bridge =
     \<lparr>totalConnections = 3, activeConnections = 3, messagesProcessed = 0, lastActivity = 0\<rparr>"
  by (simp add: demo_bridge_def initialize_def MCPBridge_def setupDefaultServers_def
      connectToServer_def startPeriodicTasks_def srv_status_defaults)

lemma demo_bridge_servers:
  "servers demo_bridge =
     [(''demo-server'', demo_server), (''ai-assistant'', ai_assistant),
      (''file-manager'', file_manager)]"
  by (simp add: demo_bridge_def initialize_def MCPBridge_def setupDefaultServers_def
      connectToServer_def startPeriodicTasks_def srv_status_defaults)

lemma received_bridge_connections:
  "connections received_bridge =
     [(''demo-server'', \<lparr>conn_id = ''demo-server'', conn_server = demo_server, conn_ws = None,
         conn_status = ''connected'', lastPing = 2000, messageCount = 1\<rparr>),
      (''ai-assistant'', \<lparr>conn_id = ''ai-assistant'', conn_server = ai_assistant, conn_ws = None,
         conn_status = ''connected'', lastPing = 1000, messageCount = 0\<rparr>),
      (''file-manager'', \<lparr>conn_id = ''file-manager'', conn_server = file_manager, conn_ws = None,
         conn_status = ''connected'', lastPing = 1000, messageCount = 0\<rparr>)]"
  by (simp add: received_bridge_def handleMessage_def demo_bridge_connections)

subsection \<open>Failing sends\<close>

text \<open>
  C1. For a server id that has no entry in the connection map, \<open>sendMessage\<close> fails with
  the unknown-endpoint error and changes nothing: the bridge state after the call is the
  state before it, so \<open>getStats()\<close> and every connection are as they were.
\<close>

theorem sendMessage_unknown_endpoint:
  assumes "map_of (connections s) serverId = None"
  shows "fst (sendMessage now serverId message s) = Inl (UnknownEndpointError serverId)
       \<and> snd (sendMessage now serverId message s) = s
       \<and> getStats (snd (sendMessage now serverId message s)) = getStats s
       \<and> connections (snd (sendMessage now serverId message s)) = connections s"
  using assms by (simp add: sendMessage_def)

theorem sendMessage_unknown_endpoint_witness:
  "map_of (connections demo_bridge) ''missing-id'' = None
   \<and> fst (sendMessage 2000 ''missing-id'' \<lparr>msg_method = ''ping'', params = Some []\<rparr> demo_bridge)
       = Inl (UnknownEndpointError ''missing-id'')
   \<and> getStats (snd (sendMessage 2000 ''missing-id'' \<lparr>msg_method = ''ping'', params = Some []\<rparr> demo_bridge))
       = getStats demo_bridge
   \<and> connections (snd (sendMessage 2000 ''missing-id'' \<lparr>msg_method = ''ping'', params = Some []\<rparr> demo_bridge))
       = connections demo_bridge"
proof -
  have absent: "map_of (connections demo_bridge) ''missing-id'' = None"
    by (simp add: demo_bridge_connections)
  from sendMessage_unknown_endpoint [OF absent, of 2000 "\<lparr>msg_method = ''ping'', params = Some []\<rparr>"]
  show ?thesis using absent by simp
qed

text \<open>
  C6. When the connection exists but its status is not \<open>connected\<close>, \<open>sendMessage\<close> fails
  with the not-connected error, which is never equal to an unknown-endpoint error, and the
  bridge state (so also that connection) is left as it was.
\<close>

theorem sendMessage_not_connected:
  assumes "map_of (connections s) serverId = Some c"
    and "conn_status c \<noteq> ''connected''"
  shows "fst (sendMessage now serverId message s) = Inl (NotConnectedError serverId)
       \<and> NotConnectedError serverId \<noteq> UnknownEndpointError serverId'
       \<and> snd (sendMessage now serverId message s) = s
       \<and> map_of (connections (snd (sendMessage now serverId message s))) serverId = Some c"
  using assms
  by (simp add: sendMessage_def NotConnectedError_def UnknownEndpointError_def)

theorem sendMessage_not_connected_witness:
  "map_of (connections (handleDisconnect ''demo-server'' demo_bridge)) ''demo-server''
     = Some \<lparr>conn_id = ''demo-server'', conn_server = demo_server, conn_ws = None,
             conn_status = ''disconnected'', lastPing = 1000, messageCount = 0\<rparr>
   \<and> ''disconnected'' \<noteq> ''connected''
   \<and> fst (sendMessage 2000 ''demo-server'' \<lparr>msg_method = ''tools/list'', params = Some []\<rparr>
            (handleDisconnect ''demo-server'' demo_bridge))
       = Inl (NotConnectedError ''demo-server'')
   \<and> NotConnectedError ''demo-server'' \<noteq> UnknownEndpointError ''demo-server''
   \<and> snd (sendMessage 2000 ''demo-server'' \<lparr>msg_method = ''tools/list'', params = Some []\<rparr>
            (handleDisconnect ''demo-server'' demo_bridge))
       = handleDisconnect ''demo-server'' demo_bridge"
proof -
  let ?c = "\<lparr>conn_id = ''demo-server'', conn_server = demo_server, conn_ws = None,
             conn_status = ''disconnected'', lastPing = 1000, messageCount = 0\<rparr>"
  have present: "map_of (connections (handleDisconnect ''demo-server'' demo_bridge)) ''demo-server''
      = Some ?c"
    by (simp add: handleDisconnect_def demo_bridge_connections)
  have status: "conn_status ?c \<noteq> ''connected''"
    by simp
  from sendMessage_not_connected [OF present status,
      of 2000 "\<lparr>msg_method = ''tools/list'', params = Some []\<rparr>" "''demo-server''"]
  show ?thesis using present by simp
qed

text \<open>
  C10. After \<open>close\<close> the connection map is empty, so \<open>sendMessage\<close> fails with the
  unknown-endpoint error for every server id, whatever the bridge held before.
\<close>

theorem sendMessage_after_close:
  "fst (sendMessage now serverId message (close s)) = Inl (UnknownEndpointError serverId)
   \<and> connections (close s) = []"
  by (simp add: sendMessage_def close_def)

subsection \<open>Simulated endpoints\<close>

text \<open>
  C2. On a connected simulated endpoint, \<open>tools/list\<close> returns a tool list whose names
  are exactly calculate, weather and translate; the call leaves the bridge as it was, and
  calling again (at any later time) returns the same result.
\<close>

theorem tools_list_simulated:
  assumes "map_of (connections s) serverId = Some c"
    and "conn_status c = ''connected''"
    and "srv_status (conn_server c) = ''simulated''"
    and "msg_method message = ''tools/list''"
  shows "\<exists>ts. fst (sendMessage now serverId message s) = Inr (Response (Result (Tools ts)))
            \<and> map tool_name ts = [''calculate'', ''weather'', ''translate'']
            \<and> snd (sendMessage now serverId message s) = s
            \<and> fst (sendMessage now' serverId message (snd (sendMessage now serverId message s)))
                = fst (sendMessage now serverId message s)"
  using assms
  by (simp add: sendMessage_def simulateResponse_def responses_def property_read_def)

theorem tools_list_simulated_witness:
  "map_of (connections demo_bridge) ''demo-server''
     = Some \<lparr>conn_id = ''demo-server'', conn_server = demo_server, conn_ws = None,
             conn_status = ''connected'', lastPing = 1000, messageCount = 0\<rparr>
   \<and> srv_status demo_server = ''simulated''
   \<and> (\<exists>ts. fst (sendMessage 2000 ''demo-server'' \<lparr>msg_method = ''tools/list'', params = Some []\<rparr>
                  demo_bridge) = Inr (Response (Result (Tools ts)))
          \<and> map tool_name ts = [''calculate'', ''weather'', ''translate'']
          \<and> fst (sendMessage 3000 ''demo-server'' \<lparr>msg_method = ''tools/list'', params = Some []\<rparr>
                  (snd (sendMessage 2000 ''demo-server''
                          \<lparr>msg_method = ''tools/list'', params = Some []\<rparr> demo_bridge)))
              = fst (sendMessage 2000 ''demo-server''
                      \<lparr>msg_method = ''tools/list'', params = Some []\<rparr> demo_bridge))"
proof -
  let ?c = "\<lparr>conn_id = ''demo-server'', conn_server = demo_server, conn_ws = None,
             conn_status = ''connected'', lastPing = 1000, messageCount = 0\<rparr>"
  let ?m = "\<lparr>msg_method = ''tools/list'', params = Some []\<rparr>"
  have present: "map_of (connections demo_bridge) ''demo-server'' = Some ?c"
    by (simp add: demo_bridge_connections)
  have connected: "conn_status ?c = ''connected''"
    by simp
  have simulated: "srv_status (conn_server ?c) = ''simulated''"
    by (simp add: srv_status_defaults)
  have meth: "msg_method ?m = ''tools/list''"
    by simp
  from tools_list_simulated [OF present connected simulated meth, of 2000 3000]
  show ?thesis using present simulated by auto
qed

text \<open>
  C9. On a connected simulated endpoint the result of \<open>sendMessage\<close> is
  \<open>simulateResponse message\<close>: two such endpoints, in any two bridge states and at any
  two times, answer the same message with the same result.
\<close>

theorem simulated_result_depends_on_message_only:
  assumes "map_of (connections s1) id1 = Some c1"
    and "conn_status c1 = ''connected''"
    and "srv_status (conn_server c1) = ''simulated''"
    and "map_of (connections s2) id2 = Some c2"
    and "conn_status c2 = ''connected''"
    and "srv_status (conn_server c2) = ''simulated''"
  shows "fst (sendMessage now1 id1 message s1) = fst (sendMessage now2 id2 message s2)
       \<and> fst (sendMessage now1 id1 message s1) = Inr (Response (simulateResponse message))"
  using assms by (simp add: sendMessage_def)

theorem simulated_result_depends_on_message_only_witness:
  "map_of (connections received_bridge) ''demo-server''
     = Some \<lparr>conn_id = ''demo-server'', conn_server = demo_server, conn_ws = None,
             conn_status = ''connected'', lastPing = 2000, messageCount = 1\<rparr>
   \<and> srv_status demo_server = ''simulated''
   \<and> map_of (connections demo_bridge) ''file-manager''
     = Some \<lparr>conn_id = ''file-manager'', conn_server = file_manager, conn_ws = None,
             conn_status = ''connected'', lastPing = 1000, messageCount = 0\<rparr>
   \<and> srv_status file_manager = ''simulated''
   \<and> fst (sendMessage 2500 ''demo-server''
            \<lparr>msg_method = ''tools/call'', params = Some [(''name'', ''weather'')]\<rparr> received_bridge)
       = fst (sendMessage 4000 ''file-manager''
            \<lparr>msg_method = ''tools/call'', params = Some [(''name'', ''weather'')]\<rparr> demo_bridge)"
proof -
  let ?c1 = "\<lparr>conn_id = ''demo-server'', conn_server = demo_server, conn_ws = None,
             conn_status = ''connected'', lastPing = 2000, messageCount = 1\<rparr>"
  let ?c2 = "\<lparr>conn_id = ''file-manager'', conn_server = file_manager, conn_ws = None,
             conn_status = ''connected'', lastPing = 1000, messageCount = 0\<rparr>"
  have p1: "map_of (connections received_bridge) ''demo-server'' = Some ?c1"
    by (simp add: received_bridge_connections)
  have p2: "map_of (connections demo_bridge) ''file-manager'' = Some ?c2"
    by (simp add: demo_bridge_connections)
  have c1: "conn_status ?c1 = ''connected''" and c2: "conn_status ?c2 = ''connected''"
    by simp_all
  have s1: "srv_status (conn_server ?c1) = ''simulated''"
    and s2: "srv_status (conn_server ?c2) = ''simulated''"
    by (simp_all add: srv_status_defaults)
  from simulated_result_depends_on_message_only [OF p1 c1 s1 p2 c2 s2, of 2500
      "\<lparr>msg_method = ''tools/call'', params = Some [(''name'', ''weather'')]\<rparr>" 4000]
  show ?thesis using p1 p2 s1 s2 by simp
qed

text \<open>
  C7. The claim fails for the method names that \<open>Object.prototype\<close> defines. At
  \<open>constructor\<close> the read \<open>responses[message.method]\<close> finds the inherited member,
  which is truthy, so the fallback of \<open>||\<close> is not taken and the caller receives that
  member instead of the placeholder.
\<close>

theorem prototype_member_returned:
  "fst (sendMessage 2000 ''demo-server'' \<lparr>msg_method = ''constructor'', params = Some []\<rparr> demo_bridge)
     = Inr (Response (ObjectPrototypeMember ''constructor''))
   \<and> fst (sendMessage 2000 ''demo-server'' \<lparr>msg_method = ''constructor'', params = Some []\<rparr> demo_bridge)
     \<noteq> Inr (Response (Result (Placeholder ''Demo response'' ''success'')))"
  by (simp add: sendMessage_def demo_bridge_connections srv_status_defaults
      simulateResponse_def responses_def property_read_def object_prototype_keys_def)

text \<open>
  What does hold of the lookup: a method name that is neither one of the three keys of the
  literal nor a property of \<open>Object.prototype\<close> gets the placeholder, and \<open>tools/call\<close>
  gets the one-element content list with the tool's name.
\<close>

lemma simulateResponse_unrecognised:
  assumes "msg_method message \<notin> {''tools/list'', ''tools/call'', ''resources/list''}"
    and "msg_method message \<notin> set object_prototype_keys"
  shows "simulateResponse message = Result (Placeholder ''Demo response'' ''success'')"
  using assms by (simp add: simulateResponse_def responses_def property_read_def)

lemma simulateResponse_tools_call:
  assumes "msg_method message = ''tools/call''"
  shows "simulateResponse message =
           Result (Content [\<lparr>content_type = ''text'',
             content_text = ''Tool executed successfully: '' @ tool_call_name message\<rparr>])"
  using assms by (simp add: simulateResponse_def responses_def property_read_def)

subsection \<open>Message counters\<close>

text \<open>
  C3, as stated, fails: on the running bridge a \<open>ping\<close> to the connected endpoint
  \<open>demo-server\<close> at time 2000 succeeds, and afterwards every message counter is still 0
  and every \<open>lastPing\<close> still 1000.
\<close>

theorem send_counter_counterexample:
  "map view_status (getConnections demo_bridge) = [''connected'', ''connected'', ''connected'']
   \<and> map view_messageCount (getConnections demo_bridge) = [0, 0, 0]
   \<and> fst (sendMessage 2000 ''demo-server'' \<lparr>msg_method = ''ping'', params = None\<rparr> demo_bridge)
       = Inr (Response (Result (Placeholder ''Demo response'' ''success'')))
   \<and> map view_messageCount
        (getConnections
          (snd (sendMessage 2000 ''demo-server'' \<lparr>msg_method = ''ping'', params = None\<rparr> demo_bridge)))
       = [0, 0, 0]
   \<and> map view_lastPing
        (getConnections
          (snd (sendMessage 2000 ''demo-server'' \<lparr>msg_method = ''ping'', params = None\<rparr> demo_bridge)))
       = [1000, 1000, 1000]"
  by (simp add: getConnections_def sendMessage_def demo_bridge_connections srv_status_defaults
      simulateResponse_def responses_def property_read_def object_prototype_keys_def)

text \<open>
  C3, amended. \<open>sendMessage\<close> never changes the connection map, so a successful send
  leaves the connection's message counter and \<open>lastPing\<close> as they were. It is the receive
  path that counts: \<open>handleMessage\<close> with a frame that parses, for a server id that has a
  connection, adds one to that connection's counter and sets its \<open>lastPing\<close> to the
  current time.
\<close>

theorem counter_moves_on_receive_only:
  "connections (snd (sendMessage now serverId message s)) = connections s
   \<and> (JSON_parse data = Some msg \<and> map_of (connections s) serverId = Some c \<longrightarrow>
        map_of (connections (handleMessage JSON_parse now serverId data s)) serverId
          = Some (c\<lparr>messageCount := messageCount c + 1, lastPing := now\<rparr>))"
  by (simp add: sendMessage_def handleMessage_def update_conv' split: option.splits)

theorem counter_moves_on_receive_only_witness:
  "(if ''null'' = ''null'' then Some JNull else None) = Some JNull
   \<and> map_of (connections demo_bridge) ''demo-server''
       = Some \<lparr>conn_id = ''demo-server'', conn_server = demo_server, conn_ws = None,
               conn_status = ''connected'', lastPing = 1000, messageCount = 0\<rparr>
   \<and> connections (snd (sendMessage 2000 ''demo-server'' \<lparr>msg_method = ''ping'', params = None\<rparr>
                         demo_bridge))
       = connections demo_bridge
   \<and> map_of (connections (handleMessage (\<lambda>data. if data = ''null'' then Some JNull else None)
                            2000 ''demo-server'' ''null'' demo_bridge)) ''demo-server''
       = Some \<lparr>conn_id = ''demo-server'', conn_server = demo_server, conn_ws = None,
               conn_status = ''connected'', lastPing = 2000, messageCount = 1\<rparr>"
proof -
  let ?c = "\<lparr>conn_id = ''demo-server'', conn_server = demo_server, conn_ws = None,
             conn_status = ''connected'', lastPing = 1000, messageCount = 0\<rparr>"
  have present: "map_of (connections demo_bridge) ''demo-server'' = Some ?c"
    by (simp add: demo_bridge_connections)
  from counter_moves_on_receive_only [of 2000 "''demo-server''"
      "\<lparr>msg_method = ''ping'', params = None\<rparr>" demo_bridge
      "\<lambda>data. if data = ''null'' then Some JNull else None" "''null''" JNull ?c]
  show ?thesis using present by simp
qed

text \<open>
  C8, as stated, fails: \<open>demo-server\<close> is connected with message counter 1, and
  connecting it again puts the counter back to 0.
\<close>

theorem connect_resets_counter_counterexample:
  "map view_status (getConnections received_bridge) = [''connected'', ''connected'', ''connected'']
   \<and> map view_messageCount (getConnections received_bridge) = [1, 0, 0]
   \<and> \<not> isl (connectToServer (\<lambda>url. None) 3000 ''demo-server'' demo_server received_bridge)
   \<and> map view_messageCount
        (getConnections
          (projr (connectToServer (\<lambda>url. None) 3000 ''demo-server'' demo_server received_bridge)))
       = [0, 0, 0]"
  by (simp add: getConnections_def received_bridge_connections connectToServer_def
      srv_status_defaults)

text \<open>
  C8, amended. For a simulated server \<open>connectToServer\<close> always succeeds and stores a
  fresh record under the id (status \<open>connected\<close>, counter 0, \<open>lastPing\<close> the current
  time), whatever was there before. Repeating the call with the same arguments succeeds
  again and leaves the connection map as the first call left it.
\<close>

theorem connect_simulated_installs_fresh:
  assumes "srv_status server = ''simulated''"
  shows "\<not> isl (connectToServer ws_throws now ident server s)
       \<and> map_of (connections (projr (connectToServer ws_throws now ident server s))) ident
           = Some \<lparr>conn_id = ident, conn_server = server, conn_ws = None,
                   conn_status = ''connected'', lastPing = now, messageCount = 0\<rparr>
       \<and> \<not> isl (connectToServer ws_throws now ident server
                   (projr (connectToServer ws_throws now ident server s)))
       \<and> connections (projr (connectToServer ws_throws now ident server
                   (projr (connectToServer ws_throws now ident server s))))
           = connections (projr (connectToServer ws_throws now ident server s))"
  using assms by (simp add: connectToServer_def update_conv')

theorem connect_simulated_installs_fresh_witness:
  "srv_status demo_server = ''simulated''
   \<and> \<not> isl (connectToServer (\<lambda>url. None) 3000 ''demo-server'' demo_server received_bridge)
   \<and> map_of (connections (projr (connectToServer (\<lambda>url. None) 3000 ''demo-server'' demo_server
                                   received_bridge))) ''demo-server''
       = Some \<lparr>conn_id = ''demo-server'', conn_server = demo_server, conn_ws = None,
               conn_status = ''connected'', lastPing = 3000, messageCount = 0\<rparr>"
proof -
  have simulated: "srv_status demo_server = ''simulated''"
    by (simp add: srv_status_defaults)
  from connect_simulated_installs_fresh [OF simulated, of "\<lambda>url. None" 3000 "''demo-server''"
      received_bridge]
  show ?thesis using simulated by simp
qed

subsection \<open>Shutdown\<close>

text \<open>
  C4, as stated, fails: after \<open>close()\<close> on the running bridge the three endpoints are
  still registered, \<open>getConnections()\<close> reports none of them, and
  \<open>getStats().activeConnections\<close> is 3.
\<close>

theorem close_counterexample:
  "map fst (servers (close demo_bridge)) = [''demo-server'', ''ai-assistant'', ''file-manager'']
   \<and> getConnections (close demo_bridge) = []
   \<and> activeConnections (getStats (close demo_bridge)) = 3"
  by (simp add: close_def getConnections_def getStats_def demo_bridge_stats demo_bridge_servers)

text \<open>
  C4, amended. \<open>close()\<close> empties the connection map instead of marking connections:
  afterwards \<open>getConnections()\<close> is the empty list, so no endpoint is reported, with any
  status.
\<close>

theorem getConnections_after_close:
  "getConnections (close s) = []"
  by (simp add: getConnections_def close_def)

subsection \<open>Statistics\<close>










lemma handleDisconnect_unknown:
  "map_of (connections s) serverId = None \<Longrightarrow> handleDisconnect serverId s = s"
  by (simp add: handleDisconnect_def)





lemma drift_zero:
  "active_drift s = 0 \<longleftrightarrow> activeConnections (stats s) = connected_count s"
  "message_drift s = 0 \<longleftrightarrow> messagesProcessed (stats s) = message_total s"
  by (simp_all add: active_drift_def message_drift_def)






end
